theory Spec2Isabelle
  imports Complex_Main
begin

section \<open>The rectangle widget of hyperspy/drawing/\_widgets/rectangles.py\<close>

text \<open>
  A shallow embedding of \<^verbatim>\<open>RectangleWidget\<close>. The widget object is a record that every
  method takes and returns. Floats are mathematical reals: the rounding of floating
  point arithmetic is outside the model. The two numpy arrays \<^verbatim>\<open>_pos\<close> and \<^verbatim>\<open>_size\<close>
  keep their dtype, because an assignment to an element of an integer array truncates.
\<close>

subsection \<open>Numbers and arrays\<close>

type_synonym vec2 = "real \<times> real"

text \<open>
  A Python or numpy scalar is an integer or a float. Integers are unbounded here
  (values outside the range of int64 are outside the model).
\<close>

datatype num = I int | F real

fun val :: "num \<Rightarrow> real" where
  "val (I i) = of_int i"
| "val (F r) = r"

text \<open>Python's \<^verbatim>\<open>idx\<close> into a two-element array: 0 or 1.\<close>

datatype axis_idx = Ax0 | Ax1

fun vget :: "'a \<times> 'a \<Rightarrow> axis_idx \<Rightarrow> 'a" where
  "vget v Ax0 = fst v"
| "vget v Ax1 = snd v"

fun vset :: "'a \<times> 'a \<Rightarrow> axis_idx \<Rightarrow> 'a \<Rightarrow> 'a \<times> 'a" where
  "vset v Ax0 a = (a, snd v)"
| "vset v Ax1 a = (fst v, a)"

text \<open>A numpy array of two elements, of dtype int64 or float64.\<close>

datatype ndarray = IntArr "int \<times> int" | FloatArr "real \<times> real"

fun is_float :: "ndarray \<Rightarrow> bool" where
  "is_float (FloatArr _) = True"
| "is_float (IntArr _) = False"

text \<open>\<^verbatim>\<open>a[idx]\<close> as a scalar of the dtype of the array, and its value.\<close>

fun elem :: "ndarray \<Rightarrow> axis_idx \<Rightarrow> num" where
  "elem (IntArr p) idx = I (vget p idx)"
| "elem (FloatArr p) idx = F (vget p idx)"

definition aget :: "ndarray \<Rightarrow> axis_idx \<Rightarrow> real" where
  "aget a idx = val (elem a idx)"

text \<open>\<^verbatim>\<open>a.tolist()\<close>: the two values.\<close>

definition tolist :: "ndarray \<Rightarrow> vec2" where
  "tolist a = (aget a Ax0, aget a Ax1)"

text \<open>The cast of a float to an integer dtype drops the fractional part.\<close>

definition trunc :: "real \<Rightarrow> int" where
  "trunc v = (if 0 \<le> v then \<lfloor>v\<rfloor> else \<lceil>v\<rceil>)"

text \<open>
  \<^verbatim>\<open>a[idx] = v\<close>: the array keeps its dtype, and an integer array stores the truncated
  value. \<^verbatim>\<open>a[idx] += d\<close> is \<^verbatim>\<open>a[idx] = a[idx] + d\<close>.
\<close>

fun setitem :: "ndarray \<Rightarrow> axis_idx \<Rightarrow> real \<Rightarrow> ndarray" where
  "setitem (IntArr p) idx v = IntArr (vset p idx (trunc v))"
| "setitem (FloatArr p) idx v = FloatArr (vset p idx v)"

text \<open>
  \<^verbatim>\<open>np.array([x, y])\<close>: a new array, of dtype int64 when both values are integers and
  float64 otherwise.
\<close>

fun np_array :: "num \<Rightarrow> num \<Rightarrow> ndarray" where
  "np_array (I a) (I b) = IntArr (a, b)"
| "np_array x y = FloatArr (val x, val y)"

subsection \<open>Data model\<close>

text \<open>
  The attributes of an axis object that the widget reads; its values are floats and its
  size is an integer. \<open>axsize\<close> is the attribute \<^verbatim>\<open>size\<close> (the number of samples) and
  \<open>axvalue\<close> the attribute \<^verbatim>\<open>value\<close> (where the navigation cursor currently is).
\<close>

record axis =
  low_value :: real
  high_value :: real
  scale :: real
  axsize :: int
  axvalue :: real

text \<open>The notifications a widget can fire, kept in a log in the order they fire.\<close>

datatype event = PosChanged | SizeChanged

text \<open>
  The widget. \<open>w_pos\<close> and \<open>w_size\<close> are \<^verbatim>\<open>_pos\<close> and \<^verbatim>\<open>_size\<close>; \<open>resizer_picked\<close> is
  \<^verbatim>\<open>False\<close> (\<open>None\<close>) or the index of the picked corner handle. \<open>resizer_offset\<close> is the
  value \<^verbatim>\<open>_get_resizer_offset()\<close> returns: it depends on the renderer and is taken as a
  parameter. The two snap steps are the configured steps of the snapping described in
  section 4.2 of the specification.
\<close>

record widget =
  axes :: "axis \<times> axis"
  w_pos :: ndarray
  w_size :: ndarray
  navigating :: bool
  snap_position :: bool
  snap_size :: bool
  position_snap_step :: vec2
  size_snap_step :: vec2
  size_step :: real
  picked :: bool
  resizer_picked :: "int option"
  pick_offset :: vec2
  resizer_offset :: vec2
  events :: "event list"

subsection \<open>Collaborators defined outside rectangles.py\<close>

text \<open>
  Modelled from the spec: the properties \<^verbatim>\<open>position\<close> and \<^verbatim>\<open>size\<close> of the base class,
  which read the stored geometry back as a tuple of values.
\<close>

definition position :: "widget \<Rightarrow> vec2" where
  "position wd = tolist (w_pos wd)"

definition size_of :: "widget \<Rightarrow> vec2" where
  "size_of wd = tolist (w_size wd)"

text \<open>
  Modelled from the spec: \<^verbatim>\<open>_size_changed\<close> of the base class, which fires the
  size-changed notification.
\<close>

definition size_changed :: "widget \<Rightarrow> widget" where
  "size_changed wd = wd\<lparr>events := events wd @ [SizeChanged]\<rparr>"

text \<open>
  Modelled from the spec: \<^verbatim>\<open>_pos_changed\<close> of the base class, which fires the
  position-changed notification.
\<close>

definition pos_changed :: "widget \<Rightarrow> widget" where
  "pos_changed wd = wd\<lparr>events := events wd @ [PosChanged]\<rparr>"

text \<open>
  Modelled from the spec: \<^verbatim>\<open>_apply_changes\<close> of the base class, the change notifier of
  section 4.6: it compares the geometry with the one saved before the operation and fires
  a position-changed event if the position differs and a size-changed event if the size
  differs.
\<close>

definition apply_changes :: "widget \<Rightarrow> vec2 \<Rightarrow> vec2 \<Rightarrow> widget" where
  "apply_changes wd old_size old_position =
     (let wd = (if position wd = old_position then wd else pos_changed wd)
      in if size_of wd = old_size then wd else size_changed wd)"

text \<open>
  Modelled from the spec: \<^verbatim>\<open>_do_snap_position\<close> and \<^verbatim>\<open>_do_snap_size\<close> of the base
  class. Section 4.2, step 4: the position is rounded to the nearest multiple of the
  position-snap step and the size to the nearest multiple of the size-snap step. A value
  half way between two multiples goes to the upper one. The only multiple of a step 0 is
  0, which is what \<open>snap_to 0\<close> gives. The rounded values are written into the array.
\<close>

definition snap_to :: "real \<Rightarrow> real \<Rightarrow> real" where
  "snap_to step v = of_int (round (v / step)) * step"

definition do_snap_position :: "widget \<Rightarrow> widget" where
  "do_snap_position wd =
     wd\<lparr>w_pos := setitem
         (setitem (w_pos wd) Ax0 (snap_to (fst (position_snap_step wd)) (aget (w_pos wd) Ax0)))
         Ax1 (snap_to (snd (position_snap_step wd)) (aget (w_pos wd) Ax1))\<rparr>"

definition do_snap_size :: "widget \<Rightarrow> widget" where
  "do_snap_size wd =
     wd\<lparr>w_size := setitem
         (setitem (w_size wd) Ax0 (snap_to (fst (size_snap_step wd)) (aget (w_size wd) Ax0)))
         Ax1 (snap_to (snd (size_snap_step wd)) (aget (w_size wd) Ax1))\<rparr>"

subsection \<open>\_validate\_geometry\<close>

text \<open>
  Lines 289 to 322 of \<^verbatim>\<open>_validate_geometry\<close>. Lines 293 and 294 write the limited size
  into the array \<^verbatim>\<open>_size\<close>. A supplied \<^verbatim>\<open>x1\<close>/\<^verbatim>\<open>y1\<close> (a float) is limited to the value range
  of its axis; \<open>None\<close> takes the element of \<^verbatim>\<open>_pos\<close> as it is. A far edge beyond
  \<^verbatim>\<open>high_value + scale\<close> moves the position back. Line 322 builds a new array \<^verbatim>\<open>_pos\<close>.
\<close>

definition validate_geometry_bounds :: "widget \<Rightarrow> real option \<Rightarrow> real option \<Rightarrow> widget" where
  "validate_geometry_bounds wd x1 y1 =
     (let xaxis = fst (axes wd);
          yaxis = snd (axes wd);
          sz = setitem (w_size wd) Ax0
                 (min (aget (w_size wd) Ax0) (of_int (axsize xaxis) * scale xaxis));
          sz = setitem sz Ax1 (min (aget sz Ax1) (of_int (axsize yaxis) * scale yaxis));
          x1 = (case x1 of
                  None \<Rightarrow> elem (w_pos wd) Ax0
                | Some v \<Rightarrow>
                    if v < low_value xaxis then F (low_value xaxis)
                    else if v > high_value xaxis then F (high_value xaxis)
                    else F v);
          y1 = (case y1 of
                  None \<Rightarrow> elem (w_pos wd) Ax1
                | Some v \<Rightarrow>
                    if v < low_value yaxis then F (low_value yaxis)
                    else if v > high_value yaxis then F (high_value yaxis)
                    else F v);
          x2 = val x1 + aget sz Ax0;
          y2 = val y1 + aget sz Ax1;
          x1 = (if x2 > high_value xaxis + scale xaxis
                then F ((high_value xaxis + scale xaxis) - aget sz Ax0) else x1);
          y1 = (if y2 > high_value yaxis + scale yaxis
                then F ((high_value yaxis + scale yaxis) - aget sz Ax1) else y1)
      in wd\<lparr>w_size := sz, w_pos := np_array x1 y1\<rparr>)"

text \<open>The whole method: the bounds above, then the snaps of lines 323 to 327.\<close>

definition validate_geometry :: "widget \<Rightarrow> real option \<Rightarrow> real option \<Rightarrow> widget" where
  "validate_geometry wd x1 y1 =
     (let wd = validate_geometry_bounds wd x1 y1;
          wd = (if snap_position wd then do_snap_position wd else wd);
          wd = (if snap_size wd then do_snap_size wd else wd)
      in wd)"

subsection \<open>Bounds arguments\<close>

text \<open>
  The values a caller can pass: a number (an integer or a float), or a tuple of values.
  \<^verbatim>\<open>args\<close> is the list of positional arguments and \<^verbatim>\<open>kwargs\<close> the keyword arguments, in
  the order they were written (a call cannot repeat a keyword, so every key occurs
  once). The errors are the exceptions of Python 3.
\<close>

datatype pyval = Num num | Tup "pyval list"

datatype py_error = ValueError string | TypeError

type_synonym kwargs = "(string \<times> pyval) list"

text \<open>
  \<^verbatim>\<open>kwargs.pop(key, default)\<close>. The dictionary is local to the call and no key is popped
  twice, so only the value that is read matters.
\<close>

definition kw_pop :: "kwargs \<Rightarrow> string \<Rightarrow> pyval \<Rightarrow> pyval" where
  "kw_pop kw key dflt = (case map_of kw key of Some v \<Rightarrow> v | None \<Rightarrow> dflt)"

text \<open>
  Subtraction is defined on numbers, and gives an integer for two integers; a tuple
  operand raises TypeError.
\<close>

fun num_sub :: "num \<Rightarrow> num \<Rightarrow> num" where
  "num_sub (I a) (I b) = I (a - b)"
| "num_sub x y = F (val x - val y)"

fun py_sub :: "pyval \<Rightarrow> pyval \<Rightarrow> py_error + pyval" where
  "py_sub (Num a) (Num b) = Inr (Num (num_sub a b))"
| "py_sub _ _ = Inl TypeError"

text \<open>
  \<^verbatim>\<open>_parse_bounds_args\<close>. In the third branch \<^verbatim>\<open>kwargs.values()\<close> is a view, which
  cannot be indexed: \<^verbatim>\<open>kwargs.values()[0]\<close> raises TypeError. The last branch is taken by
  every other input: it raises only where \<^verbatim>\<open>right\<close> or \<^verbatim>\<open>bottom\<close> cannot be subtracted
  from.
\<close>

definition parse_bounds_args :: "widget \<Rightarrow> pyval list \<Rightarrow> kwargs \<Rightarrow> py_error + pyval" where
  "parse_bounds_args wd args kw =
     (if length args = 1 then Inr (args ! 0)
      else if length args = 4 then Inr (Tup args)
      else if length kw = 1 \<and> map_of kw ''bounds'' \<noteq> None then Inl TypeError
      else
        let x = kw_pop kw ''x'' (kw_pop kw ''left'' (Num (elem (w_pos wd) Ax0)));
            y = kw_pop kw ''y'' (kw_pop kw ''top'' (Num (elem (w_pos wd) Ax1)))
        in case (case map_of kw ''right'' of
                   Some r \<Rightarrow> py_sub r x
                 | None \<Rightarrow>
                     Inr (kw_pop kw ''w'' (kw_pop kw ''width'' (Num (elem (w_size wd) Ax0))))) of
             Inl e \<Rightarrow> Inl e
           | Inr w \<Rightarrow>
               (case (case map_of kw ''bottom'' of
                        Some b \<Rightarrow> py_sub b y
                      | None \<Rightarrow>
                          Inr (kw_pop kw ''h''
                                 (kw_pop kw ''height'' (Num (elem (w_size wd) Ax1))))) of
                  Inl e \<Rightarrow> Inl e
                | Inr h \<Rightarrow> Inr (Tup [x, y, w, h])))"

text \<open>
  The assignment \<^verbatim>\<open>x, y, w, h = ...\<close>: a number cannot be unpacked (TypeError), a tuple
  of another length raises ValueError.
\<close>

fun unpack4 :: "pyval \<Rightarrow> py_error + (pyval \<times> pyval \<times> pyval \<times> pyval)" where
  "unpack4 (Tup [x, y, w, h]) = Inr (x, y, w, h)"
| "unpack4 (Tup _) = Inl (ValueError ''wrong number of values to unpack'')"
| "unpack4 (Num _) = Inl TypeError"

text \<open>Comparing or adding a tuple and a number raises TypeError.\<close>

fun as_num :: "pyval \<Rightarrow> py_error + num" where
  "as_num (Num a) = Inr a"
| "as_num (Tup _) = Inl TypeError"


subsection \<open>set\_bounds\<close>

text \<open>
  The result is the exception raised, if any, and the widget as the call leaves it. The
  four checks run in the order of the source, each one reading its operand when it is
  evaluated. Lines 157 and 158 build two new arrays from the values of the caller: they
  are integer arrays when the caller passed integers.
\<close>

definition set_bounds :: "widget \<Rightarrow> pyval list \<Rightarrow> kwargs \<Rightarrow> py_error option \<times> widget" where
  "set_bounds wd args kw =
     (case parse_bounds_args wd args kw of
        Inl e \<Rightarrow> (Some e, wd)
      | Inr b \<Rightarrow>
     (case unpack4 b of
        Inl e \<Rightarrow> (Some e, wd)
      | Inr (x, y, w, h) \<Rightarrow>
     (let offset = (scale (fst (axes wd)), scale (snd (axes wd))) in
     (case as_num x of
        Inl e \<Rightarrow> (Some e, wd)
      | Inr x \<Rightarrow>
     if \<not> (low_value (fst (axes wd)) \<le> val x \<and> val x \<le> high_value (fst (axes wd)))
     then (Some (ValueError ''`left` value is not in range.''), wd)
     else
     (case as_num y of
        Inl e \<Rightarrow> (Some e, wd)
      | Inr y \<Rightarrow>
     if \<not> (low_value (snd (axes wd)) \<le> val y \<and> val y \<le> high_value (snd (axes wd)))
     then (Some (ValueError ''`top` value is not in range.''), wd)
     else
     (case as_num w of
        Inl e \<Rightarrow> (Some e, wd)
      | Inr w \<Rightarrow>
     if \<not> (low_value (fst (axes wd)) \<le> val x + val w \<and>
            val x + val w \<le> high_value (fst (axes wd)) + fst offset)
     then (Some (ValueError ''`width` or `right` value is not in range.''), wd)
     else
     (case as_num h of
        Inl e \<Rightarrow> (Some e, wd)
      | Inr h \<Rightarrow>
     if \<not> (low_value (snd (axes wd)) \<le> val y + val h \<and>
            val y + val h \<le> high_value (snd (axes wd)) + snd offset)
     then (Some (ValueError ''`height` or `bottom` value is not in range.''), wd)
     else
       (let old_position = position wd;
            old_size = size_of wd;
            wd = wd\<lparr>w_pos := np_array x y\<rparr>;
            wd = wd\<lparr>w_size := np_array w h\<rparr>
        in (None, apply_changes wd old_size old_position)))))))))"

subsection \<open>Size setters and key steps\<close>

text \<open>
  \<^verbatim>\<open>_set_size\<close>. \<^verbatim>\<open>np.minimum\<close> and \<^verbatim>\<open>np.maximum\<close> with the float values of the axes give
  a new float array, which becomes \<^verbatim>\<open>_size\<close>; \<^verbatim>\<open>np.any(a != b)\<close> on two-element arrays is
  inequality of the pairs of values.
\<close>

definition set_size :: "widget \<Rightarrow> vec2 \<Rightarrow> widget" where
  "set_size wd v =
     (let xaxis = fst (axes wd);
          yaxis = snd (axes wd);
          v = (min (fst v) (of_int (axsize xaxis) * scale xaxis),
               min (snd v) (of_int (axsize yaxis) * scale yaxis));
          v = (max (fst v) (scale xaxis), max (snd v) (scale yaxis))
      in if tolist (w_size wd) \<noteq> v then
           (let old = tolist (w_size wd);
                wd = wd\<lparr>w_size := FloatArr v\<rparr>;
                wd = validate_geometry wd None None
            in if tolist (w_size wd) \<noteq> old then size_changed wd else wd)
         else wd)"

text \<open>
  \<^verbatim>\<open>_set_a_size\<close>. Lines 218 and 220 assign to elements of \<^verbatim>\<open>_pos\<close> and \<^verbatim>\<open>_size\<close>, which
  keep their dtype. The callers in this file pass a float.
\<close>

definition set_a_size :: "widget \<Rightarrow> axis_idx \<Rightarrow> real \<Rightarrow> widget" where
  "set_a_size wd idx v =
     (if aget (w_size wd) idx = v \<or> v \<le> 0 then wd
      else
        let wd = (if navigating wd \<and> axvalue (vget (axes wd) idx) > aget (w_pos wd) idx
                  then (if v < aget (w_size wd) idx
                        then wd\<lparr>w_pos := setitem (w_pos wd) idx
                                   (aget (w_pos wd) idx + (aget (w_size wd) idx - v))\<rparr>
                        else wd)
                  else wd);
            wd = wd\<lparr>w_size := setitem (w_size wd) idx v\<rparr>;
            wd = validate_geometry wd None None
        in size_changed wd)"

definition increase_xsize :: "widget \<Rightarrow> widget" where
  "increase_xsize wd =
     set_a_size wd Ax0 (aget (w_size wd) Ax0 + scale (fst (axes wd)) * size_step wd)"

definition decrease_xsize :: "widget \<Rightarrow> widget" where
  "decrease_xsize wd =
     (let new_s = aget (w_size wd) Ax0 - scale (fst (axes wd)) * size_step wd;
          new_s = max new_s (scale (fst (axes wd)))
      in set_a_size wd Ax0 new_s)"

definition increase_ysize :: "widget \<Rightarrow> widget" where
  "increase_ysize wd =
     set_a_size wd Ax1 (aget (w_size wd) Ax1 + scale (snd (axes wd)) * size_step wd)"

definition decrease_ysize :: "widget \<Rightarrow> widget" where
  "decrease_ysize wd =
     (let new_s = aget (w_size wd) Ax1 - scale (snd (axes wd)) * size_step wd;
          new_s = max new_s (scale (snd (axes wd)))
      in set_a_size wd Ax1 new_s)"

subsection \<open>Mouse drags\<close>

record mouse_event =
  inaxes :: bool
  xdata :: real
  ydata :: real

text \<open>\<^verbatim>\<open>_get_patch_xy\<close>: a float array, here the pair of its values.\<close>

definition get_patch_xy :: "widget \<Rightarrow> vec2" where
  "get_patch_xy wd =
     (aget (w_pos wd) Ax0 - 0.5 * scale (fst (axes wd)),
      aget (w_pos wd) Ax1 - 0.5 * scale (snd (axes wd)))"

text \<open>
  Lines 363 to 387 of \<^verbatim>\<open>_onmousemove\<close>, the resolution of the first axis. \<open>bounds0\<close> and
  \<open>bounds2\<close> are the entries 0 and 2 of the list \<^verbatim>\<open>bounds\<close>, \<open>x\<close> the adjusted mouse
  position, \<open>sz\<close> the array \<^verbatim>\<open>_size\<close> and \<open>rp\<close> the attribute \<^verbatim>\<open>resizer_picked\<close>. The result
  is the new \<^verbatim>\<open>posx\<close> (\<open>None\<close> keeps the old position), the array after the assignment to
  its element 0, and the updated \<^verbatim>\<open>resizer_picked\<close>.
\<close>

definition resize_x ::
  "axis \<Rightarrow> real \<Rightarrow> real \<Rightarrow> real \<Rightarrow> int \<Rightarrow> ndarray \<Rightarrow> int \<Rightarrow> real option \<times> ndarray \<times> int" where
  "resize_x xaxis bounds0 bounds2 x corner sz rp =
     (if corner mod 2 = 0 then
        (if x > bounds2 then (Some bounds2, setitem sz Ax0 (x - bounds2), rp + 1)
         else if bounds2 - x < scale xaxis then
           (Some (bounds2 - scale xaxis),
            setitem sz Ax0 (bounds2 - (bounds2 - scale xaxis)), rp)
         else (Some x, setitem sz Ax0 (bounds2 - x), rp))
      else
        (if x < bounds0 then
           (let posx = (if bounds0 - x < scale xaxis then bounds0 - scale xaxis else x)
            in (Some posx, setitem sz Ax0 (bounds0 - posx), rp - 1))
         else (None, setitem sz Ax0 (x - bounds0), rp)))"

text \<open>
  Lines 388 to 411, the resolution of the second axis, on the entries 1 and 3 of
  \<^verbatim>\<open>bounds\<close>. Its test reads \<^verbatim>\<open>corner\<close>, the index at the start of the move.
\<close>

definition resize_y ::
  "axis \<Rightarrow> real \<Rightarrow> real \<Rightarrow> real \<Rightarrow> int \<Rightarrow> ndarray \<Rightarrow> int \<Rightarrow> real option \<times> ndarray \<times> int" where
  "resize_y yaxis bounds1 bounds3 y corner sz rp =
     (if corner div 2 = 0 then
        (if y > bounds3 then (Some bounds3, setitem sz Ax1 (y - bounds3), rp + 2)
         else if bounds3 - y < scale yaxis then
           (Some (bounds3 - scale yaxis),
            setitem sz Ax1 (bounds3 - (bounds3 - scale yaxis)), rp)
         else (Some y, setitem sz Ax1 (bounds3 - y), rp))
      else
        (if y < bounds1 then
           (let posy = (if bounds1 - y < scale yaxis then bounds1 - scale yaxis else y)
            in (Some posy, setitem sz Ax1 (bounds1 - posy), rp - 2))
         else (None, setitem sz Ax1 (y - bounds1), rp)))"

text \<open>
  \<^verbatim>\<open>_onmousemove\<close>. \<open>bounds0\<close> to \<open>bounds3\<close> are the entries of the list \<^verbatim>\<open>bounds\<close>. When a
  corner is picked, \<^verbatim>\<open>resizer_picked\<close> is \<^verbatim>\<open>corner\<close> when the first block starts. Lines 413
  to 416 read the elements of \<^verbatim>\<open>_size\<close> back from the array.
\<close>

definition onmousemove :: "widget \<Rightarrow> mouse_event \<Rightarrow> widget" where
  "onmousemove wd event =
     (if picked wd \<and> inaxes event then
        let xaxis = fst (axes wd);
            yaxis = snd (axes wd);
            x = xdata event;
            y = ydata event;
            p = get_patch_xy wd;
            bounds0 = fst p;
            bounds1 = snd p;
            bounds2 = fst p + aget (w_size wd) Ax0;
            bounds3 = snd p + aget (w_size wd) Ax1;
            old_position = position wd;
            old_size = size_of wd
        in (case resizer_picked wd of
              None \<Rightarrow>
                let x = x - fst (pick_offset wd);
                    y = y - snd (pick_offset wd)
                in apply_changes (validate_geometry wd (Some x) (Some y)) old_size old_position
            | Some corner \<Rightarrow>
                let offset = resizer_offset wd;
                    x = x + fst offset * (0.5 - 1 * of_int (corner mod 2));
                    y = y + snd offset * (0.5 - 1 * of_int (corner div 2));
                    (posx, sz, rp) = resize_x xaxis bounds0 bounds2 x corner (w_size wd) corner;
                    (posy, sz, rp) = resize_y yaxis bounds1 bounds3 y corner sz rp;
                    sz = (if aget sz Ax0 < scale xaxis then setitem sz Ax0 (scale xaxis) else sz);
                    sz = (if aget sz Ax1 < scale yaxis then setitem sz Ax1 (scale yaxis) else sz);
                    posx = map_option (\<lambda>v. v + 0.5 * scale xaxis) posx;
                    posy = map_option (\<lambda>v. v + 0.5 * scale yaxis) posy;
                    wd = wd\<lparr>w_size := sz, resizer_picked := Some rp\<rparr>
                in apply_changes (validate_geometry wd posx posy) old_size old_position)
      else wd)"

text \<open>
  Names for the quantities \<^verbatim>\<open>_onmousemove\<close> compares while a corner is dragged: the mouse
  position adjusted for the handle (lines 359 to 361) and the four entries of \<^verbatim>\<open>bounds\<close>,
  the edges of the patch before the move (lines 339 to 343).
\<close>

definition drag_x :: "widget \<Rightarrow> mouse_event \<Rightarrow> int \<Rightarrow> real" where
  "drag_x wd event corner =
     xdata event + fst (resizer_offset wd) * (0.5 - 1 * of_int (corner mod 2))"

definition drag_y :: "widget \<Rightarrow> mouse_event \<Rightarrow> int \<Rightarrow> real" where
  "drag_y wd event corner =
     ydata event + snd (resizer_offset wd) * (0.5 - 1 * of_int (corner div 2))"

definition patch_left :: "widget \<Rightarrow> real" where
  "patch_left wd = fst (get_patch_xy wd)"

definition patch_top :: "widget \<Rightarrow> real" where
  "patch_top wd = snd (get_patch_xy wd)"

definition patch_right :: "widget \<Rightarrow> real" where
  "patch_right wd = fst (get_patch_xy wd) + aget (w_size wd) Ax0"

definition patch_bottom :: "widget \<Rightarrow> real" where
  "patch_bottom wd = snd (get_patch_xy wd) + aget (w_size wd) Ax1"

subsection \<open>Example widgets\<close>

text \<open>
  The scenario of section 8 of the specification: both axes have scale 1 and the value
  range 0 to 10 (11 samples); the rectangle is at position (2, 2) with size (3, 3), held
  in float arrays, and its bottom-right handle (corner 3) is picked.
\<close>

definition unit_axis :: axis where
  "unit_axis = \<lparr>low_value = 0, high_value = 10, scale = 1, axsize = 11, axvalue = 0\<rparr>"

definition example_widget :: widget where
  "example_widget =
     \<lparr>axes = (unit_axis, unit_axis), w_pos = FloatArr (2, 2), w_size = FloatArr (3, 3),
      navigating = False, snap_position = False, snap_size = False,
      position_snap_step = (1, 1), size_snap_step = (1, 1), size_step = 1,
      picked = True, resizer_picked = Some 3, pick_offset = (0, 0),
      resizer_offset = (0, 0), events = []\<rparr>"

text \<open>A mouse-move event inside the axes, at the given data coordinates.\<close>

definition mouse_at :: "real \<Rightarrow> real \<Rightarrow> mouse_event" where
  "mouse_at x y = \<lparr>inaxes = True, xdata = x, ydata = y\<rparr>"

text \<open>A valid widget that spans the whole first axis.\<close>

definition full_width_widget :: widget where
  "full_width_widget = example_widget\<lparr>w_pos := FloatArr (0, 2), w_size := FloatArr (11, 3)\<rparr>"

text \<open>A widget in navigation mode whose cursor, at 4, lies past its position on the first axis.\<close>

definition navigating_widget :: widget where
  "navigating_widget =
     example_widget\<lparr>axes := (unit_axis\<lparr>axvalue := 4\<rparr>, unit_axis), navigating := True\<rparr>"

text \<open>
  Axes of scale 0.5 over the value range 0 to 5 (11 samples), the second with the
  navigation cursor at 4 on it; the example widget on such axes, and the same widget in
  navigation mode with the cursor of its first axis at 4.
\<close>

definition half_axis :: axis where
  "half_axis = \<lparr>low_value = 0, high_value = 5, scale = 1 / 2, axsize = 11, axvalue = 0\<rparr>"

definition half_scale_widget :: widget where
  "half_scale_widget = example_widget\<lparr>axes := (half_axis, half_axis)\<rparr>"

definition half_scale_navigating_widget :: widget where
  "half_scale_navigating_widget =
     example_widget\<lparr>axes := (half_axis\<lparr>axvalue := 4\<rparr>, half_axis), navigating := True\<rparr>"

text \<open>
  The same two widgets after \<^verbatim>\<open>set_bounds(2, 2, 1, 3)\<close> and \<^verbatim>\<open>set_bounds(2, 2, 3, 3)\<close>,
  called with Python integers: both arrays are integer arrays then.
\<close>

definition narrow_int_widget :: widget where
  "narrow_int_widget =
     snd (set_bounds half_scale_widget [Num (I 2), Num (I 2), Num (I 1), Num (I 3)] [])"

definition int_navigating_widget :: widget where
  "int_navigating_widget =
     snd (set_bounds half_scale_navigating_widget
            [Num (I 2), Num (I 2), Num (I 3), Num (I 3)] [])"

subsection \<open>The placement rule as the specification words it\<close>

text \<open>
  Section 4.2, steps 2 and 3: the candidate is clamped to the value range of the axis;
  a far edge beyond \<open>high_value + scale\<close> is pulled back to that ceiling and the position
  recomputed as the edge minus the size.
\<close>

definition clamp_to :: "real \<Rightarrow> real \<Rightarrow> real \<Rightarrow> real" where
  "clamp_to lo hi v = max lo (min hi v)"

definition spec_place :: "axis \<Rightarrow> real \<Rightarrow> real \<Rightarrow> real" where
  "spec_place ax cand sz =
     (let p = clamp_to (low_value ax) (high_value ax) cand;
          edge = p + sz
      in if edge > high_value ax + scale ax then (high_value ax + scale ax) - sz else p)"

section \<open>Properties\<close>

subsection \<open>Arrays\<close>

lemma aget_simps [simp]:
  "aget (FloatArr p) idx = vget p idx"
  "aget (IntArr q) idx = of_int (vget q idx)"
  by (simp_all add: aget_def)

lemma tolist_simps [simp]:
  "tolist (FloatArr p) = p"
  "tolist (IntArr q) = (of_int (fst q), of_int (snd q))"
  by (simp_all add: tolist_def)

lemma trunc_of_int [simp]: "trunc (of_int i) = i"
  by (simp add: trunc_def)

lemma aget_np_array [simp]:
  "aget (np_array a b) Ax0 = val a"
  "aget (np_array a b) Ax1 = val b"
  by (cases a; cases b; simp)+

lemma is_floatE: "is_float a \<Longrightarrow> (\<And>p. a = FloatArr p \<Longrightarrow> P) \<Longrightarrow> P"
  by (cases a) simp_all

subsection \<open>The geometry validator\<close>

lemma validate_geometry_bounds_size:
  "w_size (validate_geometry_bounds wd x1 y1) =
     setitem
       (setitem (w_size wd) Ax0
          (min (aget (w_size wd) Ax0) (of_int (axsize (fst (axes wd))) * scale (fst (axes wd)))))
       Ax1 (min (aget (w_size wd) Ax1) (of_int (axsize (snd (axes wd))) * scale (snd (axes wd))))"
  by (cases "w_size wd") (simp_all add: validate_geometry_bounds_def Let_def)

lemma validate_geometry_bounds_size_float:
  "is_float (w_size wd) \<Longrightarrow>
   w_size (validate_geometry_bounds wd x1 y1) =
     FloatArr
       (min (aget (w_size wd) Ax0) (of_int (axsize (fst (axes wd))) * scale (fst (axes wd))),
        min (aget (w_size wd) Ax1) (of_int (axsize (snd (axes wd))) * scale (snd (axes wd))))"
  by (erule is_floatE) (simp add: validate_geometry_bounds_size)

text \<open>
  Lines 289 to 322 alone keep the rectangle within bounds: with both snaps off and a
  float array \<^verbatim>\<open>_size\<close>, each size component is at most the extent of its axis, and
  position plus size is at most \<open>high_value + scale\<close> on both axes.
\<close>

lemma validate_geometry_within_bounds:
  assumes "\<not> snap_position wd" and "\<not> snap_size wd" and "is_float (w_size wd)"
  shows "aget (w_size (validate_geometry wd x1 y1)) Ax0
           \<le> of_int (axsize (fst (axes wd))) * scale (fst (axes wd)) \<and>
         aget (w_size (validate_geometry wd x1 y1)) Ax1
           \<le> of_int (axsize (snd (axes wd))) * scale (snd (axes wd)) \<and>
         aget (w_pos (validate_geometry wd x1 y1)) Ax0 +
         aget (w_size (validate_geometry wd x1 y1)) Ax0
           \<le> high_value (fst (axes wd)) + scale (fst (axes wd)) \<and>
         aget (w_pos (validate_geometry wd x1 y1)) Ax1 +
         aget (w_size (validate_geometry wd x1 y1)) Ax1
           \<le> high_value (snd (axes wd)) + scale (snd (axes wd))"
proof -
  let ?b = "validate_geometry_bounds wd x1 y1"
  have v: "validate_geometry wd x1 y1 = ?b"
    using assms(1,2) by (simp add: validate_geometry_def validate_geometry_bounds_def Let_def)
  have s: "aget (w_size ?b) Ax0 \<le> of_int (axsize (fst (axes wd))) * scale (fst (axes wd))"
    "aget (w_size ?b) Ax1 \<le> of_int (axsize (snd (axes wd))) * scale (snd (axes wd))"
    by (simp_all add: validate_geometry_bounds_size_float [OF assms(3)])
  have p0: "aget (w_pos ?b) Ax0 + aget (w_size ?b) Ax0
      \<le> high_value (fst (axes wd)) + scale (fst (axes wd))"
    by (simp add: validate_geometry_bounds_def Let_def)
  have p1: "aget (w_pos ?b) Ax1 + aget (w_size ?b) Ax1
      \<le> high_value (snd (axes wd)) + scale (snd (axes wd))"
    by (simp add: validate_geometry_bounds_def Let_def)
  from s p0 p1 show ?thesis unfolding v by blast
qed

text \<open>
  C1, at an input where the code departs from it. On the axis 0 to 10 with scale 1 and
  snap steps 1, both snaps enabled, the candidate position 9.5 with width 1.5 passes the
  bounds untouched (its far edge is 11). The snaps that \<^verbatim>\<open>_validate_geometry\<close> then calls
  round the position to 10 and the width to 2, and the far edge of the stored geometry is
  12, beyond \<open>high_value + scale = 11\<close>.
\<close>

theorem validate_geometry_snap_exceeds:
  "tolist (w_pos (validate_geometry
        (example_widget\<lparr>w_size := FloatArr (3 / 2, 1), snap_position := True, snap_size := True\<rparr>)
        (Some (19 / 2)) (Some 0))) = (10, 0) \<and>
   tolist (w_size (validate_geometry
        (example_widget\<lparr>w_size := FloatArr (3 / 2, 1), snap_position := True, snap_size := True\<rparr>)
        (Some (19 / 2)) (Some 0))) = (2, 1) \<and>
   \<not> aget (w_pos (validate_geometry
        (example_widget\<lparr>w_size := FloatArr (3 / 2, 1), snap_position := True, snap_size := True\<rparr>)
        (Some (19 / 2)) (Some 0))) Ax0 +
     aget (w_size (validate_geometry
        (example_widget\<lparr>w_size := FloatArr (3 / 2, 1), snap_position := True, snap_size := True\<rparr>)
        (Some (19 / 2)) (Some 0))) Ax0
     \<le> high_value (fst (axes example_widget)) + scale (fst (axes example_widget))"
  by (simp add: validate_geometry_def validate_geometry_bounds_def Let_def example_widget_def
      unit_axis_def do_snap_position_def do_snap_size_def snap_to_def round_def)

lemma spec_place_eq:
  assumes "low_value ax \<le> high_value ax"
  shows "(if (if v < low_value ax then low_value ax
              else if v > high_value ax then high_value ax else v) + s
             > high_value ax + scale ax
          then (high_value ax + scale ax) - s
          else (if v < low_value ax then low_value ax
                else if v > high_value ax then high_value ax else v)) = spec_place ax v s"
proof -
  have "(if v < low_value ax then low_value ax
         else if v > high_value ax then high_value ax else v)
        = clamp_to (low_value ax) (high_value ax) v"
    using assms by (simp add: clamp_to_def max_def min_def)
  then show ?thesis by (simp add: spec_place_def Let_def)
qed

lemma validate_geometry_bounds_pos_supplied:
  "w_pos (validate_geometry_bounds wd (Some x) (Some y)) =
     FloatArr
      (if (if x < low_value (fst (axes wd)) then low_value (fst (axes wd))
           else if x > high_value (fst (axes wd)) then high_value (fst (axes wd)) else x)
          + aget (w_size (validate_geometry_bounds wd (Some x) (Some y))) Ax0
          > high_value (fst (axes wd)) + scale (fst (axes wd))
       then (high_value (fst (axes wd)) + scale (fst (axes wd)))
            - aget (w_size (validate_geometry_bounds wd (Some x) (Some y))) Ax0
       else (if x < low_value (fst (axes wd)) then low_value (fst (axes wd))
             else if x > high_value (fst (axes wd)) then high_value (fst (axes wd)) else x),
       if (if y < low_value (snd (axes wd)) then low_value (snd (axes wd))
           else if y > high_value (snd (axes wd)) then high_value (snd (axes wd)) else y)
          + aget (w_size (validate_geometry_bounds wd (Some x) (Some y))) Ax1
          > high_value (snd (axes wd)) + scale (snd (axes wd))
       then (high_value (snd (axes wd)) + scale (snd (axes wd)))
            - aget (w_size (validate_geometry_bounds wd (Some x) (Some y))) Ax1
       else (if y < low_value (snd (axes wd)) then low_value (snd (axes wd))
             else if y > high_value (snd (axes wd)) then high_value (snd (axes wd)) else y))"
proof -
  have F: "(if c then F a else F b) = F (if c then a else b)" for c a b
    by simp
  show ?thesis
    unfolding validate_geometry_bounds_size
    unfolding validate_geometry_bounds_def Let_def option.case F val.simps
    by (cases "w_size wd") simp_all
qed

text \<open>
  C4: for a supplied candidate, on axes whose value range is not empty, the position that
  lines 296 to 322 store is the one the placement rule of the specification gives: the
  candidate clamped to the value range and then, if the far edge passes
  \<open>high_value + scale\<close>, moved back so that the far edge is at that ceiling. The size this
  step works with, the stored size limited to the extent of the axes by lines 293 and 294
  (for a float array: the smaller of the two), is the size it leaves: the rectangle is
  moved, not shrunk.
\<close>

theorem validate_geometry_bounds_clamp_then_shift:
  assumes "low_value (fst (axes wd)) \<le> high_value (fst (axes wd))"
    and "low_value (snd (axes wd)) \<le> high_value (snd (axes wd))"
  shows "w_size (validate_geometry_bounds wd (Some x) (Some y)) =
           setitem
             (setitem (w_size wd) Ax0
                (min (aget (w_size wd) Ax0)
                     (of_int (axsize (fst (axes wd))) * scale (fst (axes wd)))))
             Ax1 (min (aget (w_size wd) Ax1)
                      (of_int (axsize (snd (axes wd))) * scale (snd (axes wd)))) \<and>
         (is_float (w_size wd) \<longrightarrow>
            tolist (w_size (validate_geometry_bounds wd (Some x) (Some y))) =
              (min (aget (w_size wd) Ax0)
                   (of_int (axsize (fst (axes wd))) * scale (fst (axes wd))),
               min (aget (w_size wd) Ax1)
                   (of_int (axsize (snd (axes wd))) * scale (snd (axes wd))))) \<and>
         w_pos (validate_geometry_bounds wd (Some x) (Some y)) =
           FloatArr
             (spec_place (fst (axes wd)) x
                (aget (w_size (validate_geometry_bounds wd (Some x) (Some y))) Ax0),
              spec_place (snd (axes wd)) y
                (aget (w_size (validate_geometry_bounds wd (Some x) (Some y))) Ax1))"
proof -
  let ?r = "validate_geometry_bounds wd (Some x) (Some y)"
  have p: "w_pos ?r =
      FloatArr (spec_place (fst (axes wd)) x (aget (w_size ?r) Ax0),
                spec_place (snd (axes wd)) y (aget (w_size ?r) Ax1))"
    by (simp only: validate_geometry_bounds_pos_supplied
        spec_place_eq [OF assms(1)] spec_place_eq [OF assms(2)])
  have f: "is_float (w_size wd) \<longrightarrow>
            tolist (w_size ?r) =
              (min (aget (w_size wd) Ax0)
                   (of_int (axsize (fst (axes wd))) * scale (fst (axes wd))),
               min (aget (w_size wd) Ax1)
                   (of_int (axsize (snd (axes wd))) * scale (snd (axes wd))))"
    by (simp add: validate_geometry_bounds_size_float)
  from p f validate_geometry_bounds_size [of wd "Some x" "Some y"] show ?thesis by blast
qed

theorem validate_geometry_bounds_clamp_then_shift_witness:
  "low_value (fst (axes example_widget)) \<le> high_value (fst (axes example_widget)) \<and>
   low_value (snd (axes example_widget)) \<le> high_value (snd (axes example_widget)) \<and>
   is_float (w_size example_widget) \<and>
   tolist (w_size (validate_geometry_bounds example_widget (Some 20) (Some (- 5)))) = (3, 3) \<and>
   w_pos (validate_geometry_bounds example_widget (Some 20) (Some (- 5))) = FloatArr (8, 0)"
proof -
  have h1: "low_value (fst (axes example_widget)) \<le> high_value (fst (axes example_widget))"
    and h2: "low_value (snd (axes example_widget)) \<le> high_value (snd (axes example_widget))"
    by (simp_all add: example_widget_def unit_axis_def)
  have fl: "is_float (w_size example_widget)"
    by (simp add: example_widget_def)
  note t = validate_geometry_bounds_clamp_then_shift [OF h1 h2, of 20 "- 5"]
  have s: "tolist (w_size (validate_geometry_bounds example_widget (Some 20) (Some (- 5)))) = (3, 3)"
    using t fl by (simp add: example_widget_def unit_axis_def)
  then have s': "aget (w_size (validate_geometry_bounds example_widget (Some 20) (Some (- 5)))) Ax0 = 3"
    "aget (w_size (validate_geometry_bounds example_widget (Some 20) (Some (- 5)))) Ax1 = 3"
    by (simp_all add: tolist_def)
  have "w_pos (validate_geometry_bounds example_widget (Some 20) (Some (- 5))) = FloatArr (8, 0)"
    using t unfolding s'
    by (simp add: example_widget_def unit_axis_def spec_place_def clamp_to_def Let_def)
  with h1 h2 fl s show ?thesis by blast
qed

subsection \<open>set\_bounds\<close>

lemma tolist_np_array [simp]: "tolist (np_array a b) = (val a, val b)"
  by (simp add: tolist_def)

lemma parse_bounds_args_four:
  "parse_bounds_args wd [a, b, c, d] kw = Inr (Tup [a, b, c, d])"
  by (simp add: parse_bounds_args_def)

lemma set_bounds_raise_keeps_widget:
  "fst (set_bounds wd args kw) \<noteq> None \<Longrightarrow> snd (set_bounds wd args kw) = wd"
  by (auto simp: set_bounds_def Let_def split: sum.splits prod.splits if_splits)

text \<open>
  C2: called with four numbers, integers or floats, \<^verbatim>\<open>set_bounds\<close> raises ValueError as
  soon as one of its four range checks fails, in the order left, top, width, height, each
  with a message of its own: \<open>x\<close> outside the value range of the first axis, \<open>y\<close> outside
  that of the second, \<open>x + w\<close> outside \<open>low_value\<close> to \<open>high_value + scale\<close> of the first
  axis, \<open>y + h\<close> outside that of the second. The four messages are pairwise distinct.
  Whatever the arguments, a call that raises leaves the widget exactly as it was.
\<close>

theorem set_bounds_raises_unchanged:
  "(\<not> (low_value (fst (axes wd)) \<le> val x \<and> val x \<le> high_value (fst (axes wd))) \<longrightarrow>
      set_bounds wd [Num x, Num y, Num w, Num h] [] =
        (Some (ValueError ''`left` value is not in range.''), wd)) \<and>
   (low_value (fst (axes wd)) \<le> val x \<and> val x \<le> high_value (fst (axes wd)) \<and>
    \<not> (low_value (snd (axes wd)) \<le> val y \<and> val y \<le> high_value (snd (axes wd))) \<longrightarrow>
      set_bounds wd [Num x, Num y, Num w, Num h] [] =
        (Some (ValueError ''`top` value is not in range.''), wd)) \<and>
   (low_value (fst (axes wd)) \<le> val x \<and> val x \<le> high_value (fst (axes wd)) \<and>
    low_value (snd (axes wd)) \<le> val y \<and> val y \<le> high_value (snd (axes wd)) \<and>
    \<not> (low_value (fst (axes wd)) \<le> val x + val w \<and>
       val x + val w \<le> high_value (fst (axes wd)) + scale (fst (axes wd))) \<longrightarrow>
      set_bounds wd [Num x, Num y, Num w, Num h] [] =
        (Some (ValueError ''`width` or `right` value is not in range.''), wd)) \<and>
   (low_value (fst (axes wd)) \<le> val x \<and> val x \<le> high_value (fst (axes wd)) \<and>
    low_value (snd (axes wd)) \<le> val y \<and> val y \<le> high_value (snd (axes wd)) \<and>
    low_value (fst (axes wd)) \<le> val x + val w \<and>
    val x + val w \<le> high_value (fst (axes wd)) + scale (fst (axes wd)) \<and>
    \<not> (low_value (snd (axes wd)) \<le> val y + val h \<and>
       val y + val h \<le> high_value (snd (axes wd)) + scale (snd (axes wd))) \<longrightarrow>
      set_bounds wd [Num x, Num y, Num w, Num h] [] =
        (Some (ValueError ''`height` or `bottom` value is not in range.''), wd)) \<and>
   distinct [''`left` value is not in range.'', ''`top` value is not in range.'',
             ''`width` or `right` value is not in range.'',
             ''`height` or `bottom` value is not in range.''] \<and>
   (fst (set_bounds wd args kw) \<noteq> None \<longrightarrow> snd (set_bounds wd args kw) = wd)"
  by (simp add: set_bounds_def parse_bounds_args_four
      set_bounds_raise_keeps_widget [unfolded set_bounds_def])

theorem set_bounds_raises_unchanged_witness:
  "set_bounds example_widget [Num (I 11), Num (I 2), Num (I 3), Num (I 3)] [] =
     (Some (ValueError ''`left` value is not in range.''), example_widget) \<and>
   set_bounds example_widget [Num (F 2), Num (F (- 1)), Num (F 3), Num (F 3)] [] =
     (Some (ValueError ''`top` value is not in range.''), example_widget) \<and>
   set_bounds example_widget [Num (I 9), Num (F 2), Num (I 3), Num (I 3)] [] =
     (Some (ValueError ''`width` or `right` value is not in range.''), example_widget) \<and>
   set_bounds example_widget [Num (F 2), Num (F 2), Num (F 3), Num (F 10)] [] =
     (Some (ValueError ''`height` or `bottom` value is not in range.''), example_widget) \<and>
   fst (set_bounds example_widget [Tup [Num (I 2), Num (I 2)]] []) \<noteq> None \<and>
   snd (set_bounds example_widget [Tup [Num (I 2), Num (I 2)]] []) = example_widget"
proof -
  have ax: "low_value (fst (axes example_widget)) = 0"
    "high_value (fst (axes example_widget)) = 10"
    "scale (fst (axes example_widget)) = 1"
    "low_value (snd (axes example_widget)) = 0"
    "high_value (snd (axes example_widget)) = 10"
    "scale (snd (axes example_widget)) = 1"
    by (simp_all add: example_widget_def unit_axis_def)
  have a: "set_bounds example_widget [Num (I 11), Num (I 2), Num (I 3), Num (I 3)] [] =
     (Some (ValueError ''`left` value is not in range.''), example_widget)"
    using set_bounds_raises_unchanged [of example_widget "I 11" "I 2" "I 3" "I 3"]
    by (simp add: ax)
  have b: "set_bounds example_widget [Num (F 2), Num (F (- 1)), Num (F 3), Num (F 3)] [] =
     (Some (ValueError ''`top` value is not in range.''), example_widget)"
    using set_bounds_raises_unchanged [of example_widget "F 2" "F (- 1)" "F 3" "F 3"]
    by (simp add: ax)
  have c: "set_bounds example_widget [Num (I 9), Num (F 2), Num (I 3), Num (I 3)] [] =
     (Some (ValueError ''`width` or `right` value is not in range.''), example_widget)"
    using set_bounds_raises_unchanged [of example_widget "I 9" "F 2" "I 3" "I 3"]
    by (simp add: ax)
  have d: "set_bounds example_widget [Num (F 2), Num (F 2), Num (F 3), Num (F 10)] [] =
     (Some (ValueError ''`height` or `bottom` value is not in range.''), example_widget)"
    using set_bounds_raises_unchanged [of example_widget "F 2" "F 2" "F 3" "F 10"]
    by (simp add: ax)
  have e: "fst (set_bounds example_widget [Tup [Num (I 2), Num (I 2)]] []) \<noteq> None"
    by (simp add: set_bounds_def parse_bounds_args_def)
  with set_bounds_raises_unchanged
    [of example_widget "I 0" "I 0" "I 0" "I 0" "[Tup [Num (I 2), Num (I 2)]]" "[]"]
  have f: "snd (set_bounds example_widget [Tup [Num (I 2), Num (I 2)]] []) = example_widget"
    by blast
  from a b c d e f show ?thesis by blast
qed

text \<open>
  C3: when all four range checks pass, \<^verbatim>\<open>set_bounds(x, y, w, h)\<close> returns normally, and
  reading the position and the size back gives exactly \<open>(x, y)\<close> and \<open>(w, h)\<close>; the arrays
  are the ones numpy builds from these values.
\<close>

theorem set_bounds_read_back:
  assumes "low_value (fst (axes wd)) \<le> val x" and "val x \<le> high_value (fst (axes wd))"
    and "low_value (snd (axes wd)) \<le> val y" and "val y \<le> high_value (snd (axes wd))"
    and "low_value (fst (axes wd)) \<le> val x + val w"
    and "val x + val w \<le> high_value (fst (axes wd)) + scale (fst (axes wd))"
    and "low_value (snd (axes wd)) \<le> val y + val h"
    and "val y + val h \<le> high_value (snd (axes wd)) + scale (snd (axes wd))"
  shows "fst (set_bounds wd [Num x, Num y, Num w, Num h] []) = None \<and>
         position (snd (set_bounds wd [Num x, Num y, Num w, Num h] [])) = (val x, val y) \<and>
         size_of (snd (set_bounds wd [Num x, Num y, Num w, Num h] [])) = (val w, val h) \<and>
         w_pos (snd (set_bounds wd [Num x, Num y, Num w, Num h] [])) = np_array x y \<and>
         w_size (snd (set_bounds wd [Num x, Num y, Num w, Num h] [])) = np_array w h"
  using assms
  by (simp add: set_bounds_def parse_bounds_args_four Let_def apply_changes_def position_def
      size_of_def pos_changed_def size_changed_def)

theorem set_bounds_read_back_witness:
  "low_value (fst (axes example_widget)) \<le> val (I 1) \<and>
   val (I 1) \<le> high_value (fst (axes example_widget)) \<and>
   low_value (snd (axes example_widget)) \<le> val (I 4) \<and>
   val (I 4) \<le> high_value (snd (axes example_widget)) \<and>
   low_value (fst (axes example_widget)) \<le> val (I 1) + val (I 10) \<and>
   val (I 1) + val (I 10)
     \<le> high_value (fst (axes example_widget)) + scale (fst (axes example_widget)) \<and>
   low_value (snd (axes example_widget)) \<le> val (I 4) + val (F (5 / 2)) \<and>
   val (I 4) + val (F (5 / 2))
     \<le> high_value (snd (axes example_widget)) + scale (snd (axes example_widget)) \<and>
   fst (set_bounds example_widget [Num (I 1), Num (I 4), Num (I 10), Num (F (5 / 2))] []) = None \<and>
   position (snd (set_bounds example_widget
       [Num (I 1), Num (I 4), Num (I 10), Num (F (5 / 2))] [])) = (1, 4) \<and>
   size_of (snd (set_bounds example_widget
       [Num (I 1), Num (I 4), Num (I 10), Num (F (5 / 2))] [])) = (10, 5 / 2) \<and>
   w_pos (snd (set_bounds example_widget
       [Num (I 1), Num (I 4), Num (I 10), Num (F (5 / 2))] [])) = IntArr (1, 4) \<and>
   w_size (snd (set_bounds example_widget
       [Num (I 1), Num (I 4), Num (I 10), Num (F (5 / 2))] [])) = FloatArr (10, 5 / 2)"
proof -
  have h: "low_value (fst (axes example_widget)) \<le> val (I 1)"
    "val (I 1) \<le> high_value (fst (axes example_widget))"
    "low_value (snd (axes example_widget)) \<le> val (I 4)"
    "val (I 4) \<le> high_value (snd (axes example_widget))"
    "low_value (fst (axes example_widget)) \<le> val (I 1) + val (I 10)"
    "val (I 1) + val (I 10)
       \<le> high_value (fst (axes example_widget)) + scale (fst (axes example_widget))"
    "low_value (snd (axes example_widget)) \<le> val (I 4) + val (F (5 / 2))"
    "val (I 4) + val (F (5 / 2))
       \<le> high_value (snd (axes example_widget)) + scale (snd (axes example_widget))"
    by (simp_all add: example_widget_def unit_axis_def)
  from set_bounds_read_back [OF h] h show ?thesis by simp
qed

subsection \<open>Key steps and notifications\<close>

text \<open>
  C7, at an input where the code departs from it: a valid widget that already spans the
  whole first axis (position 0, width 11 on 11 samples of scale 1) receives the key that
  increases the width. \<^verbatim>\<open>_set_a_size\<close> stores width 12, \<^verbatim>\<open>_validate_geometry\<close> limits it to
  11 again, and \<^verbatim>\<open>_size_changed\<close> is called all the same: position and size are what they
  were, and a size-changed notification has fired. In the other direction, \<^verbatim>\<open>_set_size\<close>
  with size (10, 3) on the example widget moves the position from (2, 2) to (1, 2), and
  the only notification is size-changed.
\<close>

theorem increase_xsize_full_width_notifies:
  "w_pos (increase_xsize full_width_widget) = w_pos full_width_widget \<and>
   w_size (increase_xsize full_width_widget) = w_size full_width_widget \<and>
   events full_width_widget = [] \<and>
   events (increase_xsize full_width_widget) = [SizeChanged] \<and>
   w_pos example_widget = FloatArr (2, 2) \<and>
   w_pos (set_size example_widget (10, 3)) = FloatArr (1, 2) \<and>
   events (set_size example_widget (10, 3)) = [SizeChanged]"
  by (simp add: increase_xsize_def set_a_size_def set_size_def validate_geometry_def
      validate_geometry_bounds_def full_width_widget_def example_widget_def unit_axis_def
      size_changed_def Let_def)

text \<open>
  C9, at an input where the code departs from it. On axes of scale 0.5,
  \<^verbatim>\<open>set_bounds(2, 2, 1, 3)\<close> with integers leaves an integer array \<^verbatim>\<open>_size\<close> with width 1.
  \<^verbatim>\<open>_decrease_xsize\<close> computes the new width \<open>max (1 - 0.5) 0.5 = 0.5\<close>, and line 220
  stores it into the integer array as 0: the width is below one scale unit.
\<close>

theorem decrease_xsize_int_array_below_scale:
  "w_pos narrow_int_widget = IntArr (2, 2) \<and>
   w_size narrow_int_widget = IntArr (1, 3) \<and>
   scale (fst (axes narrow_int_widget)) = 1 / 2 \<and>
   size_step narrow_int_widget = 1 \<and>
   w_size (decrease_xsize narrow_int_widget) = IntArr (0, 3) \<and>
   \<not> scale (fst (axes narrow_int_widget)) \<le> aget (w_size (decrease_xsize narrow_int_widget)) Ax0"
proof -
  have w: "narrow_int_widget =
      half_scale_widget\<lparr>w_pos := IntArr (2, 2), w_size := IntArr (1, 3),
        events := [SizeChanged]\<rparr>"
    by (simp add: narrow_int_widget_def set_bounds_def parse_bounds_args_four Let_def
        half_scale_widget_def half_axis_def example_widget_def apply_changes_def position_def
        size_of_def size_changed_def pos_changed_def)
  show ?thesis
    unfolding w
    by (simp add: decrease_xsize_def set_a_size_def validate_geometry_def
        validate_geometry_bounds_def half_scale_widget_def half_axis_def example_widget_def
        size_changed_def Let_def trunc_def)
qed

text \<open>
  C10, at an input where the code departs from it. On axes of scale 0.5, in navigation
  mode with the cursor at 4, \<^verbatim>\<open>set_bounds(2, 2, 3, 3)\<close> with integers leaves integer
  arrays. \<^verbatim>\<open>_decrease_xsize\<close> calls \<^verbatim>\<open>_set_a_size(0, 2.5)\<close>: line 218 adds 0.5 to the
  position, which the integer array stores as 2 again, and line 220 stores the width 2.5
  as 2. The width has shrunk by 1 and the position has not moved: the far edge went from
  5 to 4. The only notification is size-changed.
\<close>

theorem set_a_size_int_array_shift_lost:
  "navigating int_navigating_widget \<and>
   aget (w_pos int_navigating_widget) Ax0 < axvalue (fst (axes int_navigating_widget)) \<and>
   w_pos int_navigating_widget = IntArr (2, 2) \<and>
   w_size int_navigating_widget = IntArr (3, 3) \<and>
   decrease_xsize int_navigating_widget = set_a_size int_navigating_widget Ax0 (5 / 2) \<and>
   w_size (set_a_size int_navigating_widget Ax0 (5 / 2)) = IntArr (2, 3) \<and>
   w_pos (set_a_size int_navigating_widget Ax0 (5 / 2)) = IntArr (2, 2) \<and>
   events (set_a_size int_navigating_widget Ax0 (5 / 2)) =
     events int_navigating_widget @ [SizeChanged]"
proof -
  have w: "int_navigating_widget =
      half_scale_navigating_widget\<lparr>w_pos := IntArr (2, 2), w_size := IntArr (3, 3)\<rparr>"
    by (simp add: int_navigating_widget_def set_bounds_def parse_bounds_args_four Let_def
        half_scale_navigating_widget_def half_axis_def example_widget_def apply_changes_def
        position_def size_of_def size_changed_def pos_changed_def)
  show ?thesis
    unfolding w
    by (simp add: decrease_xsize_def set_a_size_def validate_geometry_def
        validate_geometry_bounds_def half_scale_navigating_widget_def half_axis_def
        example_widget_def size_changed_def Let_def trunc_def)
qed

subsection \<open>The bounds parser\<close>








subsection \<open>Corner drags\<close>

lemma apply_changes_keeps:
  "resizer_picked (apply_changes wd a b) = resizer_picked wd"
  "w_size (apply_changes wd a b) = w_size wd"
  "w_pos (apply_changes wd a b) = w_pos wd"
  by (simp_all add: apply_changes_def Let_def pos_changed_def size_changed_def)

lemma validate_geometry_keeps_picked:
  "resizer_picked (validate_geometry wd a b) = resizer_picked wd"
  by (simp add: validate_geometry_def validate_geometry_bounds_def Let_def
      do_snap_position_def do_snap_size_def)

lemma validate_geometry_size_nosnap:
  assumes "\<not> snap_size wd" and "is_float (w_size wd)"
  shows "aget (w_size (validate_geometry wd a b)) Ax0 =
           min (aget (w_size wd) Ax0) (of_int (axsize (fst (axes wd))) * scale (fst (axes wd)))"
    and "aget (w_size (validate_geometry wd a b)) Ax1 =
           min (aget (w_size wd) Ax1) (of_int (axsize (snd (axes wd))) * scale (snd (axes wd)))"
proof -
  have "w_size (validate_geometry wd a b) = w_size (validate_geometry_bounds wd a b)"
    using assms(1)
    by (simp add: validate_geometry_def validate_geometry_bounds_def Let_def
        do_snap_position_def)
  then show "aget (w_size (validate_geometry wd a b)) Ax0 =
           min (aget (w_size wd) Ax0) (of_int (axsize (fst (axes wd))) * scale (fst (axes wd)))"
    and "aget (w_size (validate_geometry wd a b)) Ax1 =
           min (aget (w_size wd) Ax1) (of_int (axsize (snd (axes wd))) * scale (snd (axes wd)))"
    by (simp_all add: validate_geometry_bounds_size_float [OF assms(2)])
qed

lemma is_float_setitem [simp]: "is_float (setitem a idx v) = is_float a"
  by (cases a) simp_all

lemma aget_setitem_float:
  "is_float a \<Longrightarrow> aget (setitem a idx v) idx' = (if idx = idx' then v else aget a idx')"
  by (cases a; cases idx; cases idx') simp_all

lemma resize_x_pick:
  "snd (snd (resize_x ax b0 b2 x c sz rp)) =
     rp + (if c mod 2 = 0 then (if x > b2 then 1 else 0) else (if x < b0 then - 1 else 0))"
  by (simp add: resize_x_def Let_def)

lemma resize_y_pick:
  "snd (snd (resize_y ax b1 b3 y c sz rp)) =
     rp + (if c div 2 = 0 then (if y > b3 then 2 else 0) else (if y < b1 then - 2 else 0))"
  by (simp add: resize_y_def Let_def)

lemma resize_x_size:
  "fst (snd (resize_x ax b0 b2 x c sz rp)) =
     setitem sz Ax0
       (if c mod 2 = 0 then
          (if x > b2 then x - b2
           else if b2 - x < scale ax then b2 - (b2 - scale ax)
           else b2 - x)
        else
          (if x < b0 then b0 - (if b0 - x < scale ax then b0 - scale ax else x)
           else x - b0))"
  by (simp add: resize_x_def Let_def)

lemma resize_y_size:
  "fst (snd (resize_y ax b1 b3 y c sz rp)) =
     setitem sz Ax1
       (if c div 2 = 0 then
          (if y > b3 then y - b3
           else if b3 - y < scale ax then b3 - (b3 - scale ax)
           else b3 - y)
        else
          (if y < b1 then b1 - (if b1 - y < scale ax then b1 - scale ax else y)
           else y - b1))"
  by (simp add: resize_y_def Let_def)

lemma onmousemove_corner:
  assumes "picked wd" "inaxes ev" "resizer_picked wd = Some c"
  shows "onmousemove wd ev =
    (let rx = resize_x (fst (axes wd)) (patch_left wd) (patch_right wd) (drag_x wd ev c) c
                (w_size wd) c;
         ry = resize_y (snd (axes wd)) (patch_top wd) (patch_bottom wd) (drag_y wd ev c) c
                (fst (snd rx)) (snd (snd rx));
         sz = fst (snd ry);
         sz = (if aget sz Ax0 < scale (fst (axes wd))
               then setitem sz Ax0 (scale (fst (axes wd))) else sz);
         sz = (if aget sz Ax1 < scale (snd (axes wd))
               then setitem sz Ax1 (scale (snd (axes wd))) else sz)
     in apply_changes
          (validate_geometry (wd\<lparr>w_size := sz, resizer_picked := Some (snd (snd ry))\<rparr>)
             (map_option (\<lambda>v. v + 0.5 * scale (fst (axes wd))) (fst rx))
             (map_option (\<lambda>v. v + 0.5 * scale (snd (axes wd))) (fst ry)))
          (size_of wd) (position wd))"
  using assms
  by (simp add: onmousemove_def Let_def case_prod_beta drag_x_def drag_y_def patch_left_def
      patch_right_def patch_top_def patch_bottom_def)


lemma onmousemove_corner_picked:
  assumes "picked wd" "inaxes ev" "resizer_picked wd = Some c"
  shows "resizer_picked (onmousemove wd ev) =
     Some (c + (if c mod 2 = 0 then (if drag_x wd ev c > patch_right wd then 1 else 0)
                else (if drag_x wd ev c < patch_left wd then - 1 else 0))
             + (if c div 2 = 0 then (if drag_y wd ev c > patch_bottom wd then 2 else 0)
                else (if drag_y wd ev c < patch_top wd then - 2 else 0)))"
  by (simp add: onmousemove_corner [OF assms] Let_def apply_changes_keeps
      validate_geometry_keeps_picked resize_x_pick resize_y_pick)

lemma onmousemove_corner_width:
  assumes "picked wd" "inaxes ev" "resizer_picked wd = Some c" "\<not> snap_size wd"
    and "is_float (w_size wd)"
  shows "aget (w_size (onmousemove wd ev)) Ax0 =
     min (max (scale (fst (axes wd)))
           (if c mod 2 = 0 then
              (if drag_x wd ev c > patch_right wd then drag_x wd ev c - patch_right wd
               else if patch_right wd - drag_x wd ev c < scale (fst (axes wd))
                 then scale (fst (axes wd))
               else patch_right wd - drag_x wd ev c)
            else
              (if drag_x wd ev c < patch_left wd then
                 (if patch_left wd - drag_x wd ev c < scale (fst (axes wd))
                  then scale (fst (axes wd)) else patch_left wd - drag_x wd ev c)
               else drag_x wd ev c - patch_left wd)))
         (of_int (axsize (fst (axes wd))) * scale (fst (axes wd)))"
proof -
  define rx where "rx = resize_x (fst (axes wd)) (patch_left wd) (patch_right wd)
      (drag_x wd ev c) c (w_size wd) c"
  define ry where "ry = resize_y (snd (axes wd)) (patch_top wd) (patch_bottom wd)
      (drag_y wd ev c) c (fst (snd rx)) (snd (snd rx))"
  define sza where "sza = (if aget (fst (snd ry)) Ax0 < scale (fst (axes wd))
      then setitem (fst (snd ry)) Ax0 (scale (fst (axes wd))) else fst (snd ry))"
  define szb where "szb = (if aget sza Ax1 < scale (snd (axes wd))
      then setitem sza Ax1 (scale (snd (axes wd))) else sza)"
  have om: "onmousemove wd ev =
      apply_changes
        (validate_geometry (wd\<lparr>w_size := szb, resizer_picked := Some (snd (snd ry))\<rparr>)
           (map_option (\<lambda>v. v + 0.5 * scale (fst (axes wd))) (fst rx))
           (map_option (\<lambda>v. v + 0.5 * scale (snd (axes wd))) (fst ry)))
        (size_of wd) (position wd)"
    by (simp only: onmousemove_corner [OF assms(1-3)] Let_def rx_def ry_def sza_def szb_def)
  have f1: "is_float (fst (snd rx))"
    by (simp add: rx_def resize_x_size assms(5))
  have f2: "is_float (fst (snd ry))"
    by (simp add: ry_def resize_y_size f1)
  have f3: "is_float sza"
    by (simp add: sza_def f2)
  have f4: "is_float szb"
    by (simp add: szb_def f3)
  have w1: "aget (fst (snd rx)) Ax0 =
      (if c mod 2 = 0 then
         (if drag_x wd ev c > patch_right wd then drag_x wd ev c - patch_right wd
          else if patch_right wd - drag_x wd ev c < scale (fst (axes wd))
            then patch_right wd - (patch_right wd - scale (fst (axes wd)))
          else patch_right wd - drag_x wd ev c)
       else
         (if drag_x wd ev c < patch_left wd
          then patch_left wd - (if patch_left wd - drag_x wd ev c < scale (fst (axes wd))
                 then patch_left wd - scale (fst (axes wd)) else drag_x wd ev c)
          else drag_x wd ev c - patch_left wd))"
    by (simp only: rx_def resize_x_size aget_setitem_float [OF assms(5)] simp_thms if_True)
  have w2: "aget (fst (snd ry)) Ax0 = aget (fst (snd rx)) Ax0"
    by (simp add: ry_def resize_y_size aget_setitem_float [OF f1])
  have w3: "aget sza Ax0 = max (scale (fst (axes wd))) (aget (fst (snd ry)) Ax0)"
    by (simp add: sza_def aget_setitem_float [OF f2] max_def)
  have w4: "aget szb Ax0 = aget sza Ax0"
    by (simp add: szb_def aget_setitem_float [OF f3])
  note w = w4 w3 w2 w1
  have v: "aget (w_size (onmousemove wd ev)) Ax0 =
      min (aget szb Ax0) (of_int (axsize (fst (axes wd))) * scale (fst (axes wd)))"
    unfolding om
    by (simp add: apply_changes_keeps validate_geometry_size_nosnap assms(4) f4)
  show ?thesis
    unfolding v w
    by (simp add: max_def)
qed


lemma scale_le_extent:
  fixes sc :: real
  assumes "1 \<le> n" and "0 \<le> sc"
  shows "sc \<le> of_int n * sc"
proof -
  have "1 * sc \<le> of_int n * sc"
    using assms by (intro mult_right_mono) simp_all
  then show ?thesis by simp
qed

lemma example_patch:
  "patch_left example_widget = 3 / 2" "patch_top example_widget = 3 / 2"
  "patch_right example_widget = 9 / 2" "patch_bottom example_widget = 9 / 2"
  "drag_x example_widget (mouse_at x y) 3 = x" "drag_y example_widget (mouse_at x y) 3 = y"
  "picked example_widget" "inaxes (mouse_at x y)" "resizer_picked example_widget = Some 3"
  "\<not> snap_size example_widget" "is_float (w_size example_widget)"
  "scale (fst (axes example_widget)) = 1" "scale (snd (axes example_widget)) = 1"
  "axsize (fst (axes example_widget)) = 11" "axsize (snd (axes example_widget)) = 11"
  by (simp_all add: example_widget_def unit_axis_def mouse_at_def drag_x_def drag_y_def
      patch_left_def patch_top_def patch_right_def patch_bottom_def get_patch_xy_def)

text \<open>
  C5 as stated fails: with the bottom-right corner picked, the mouse at (0, 0) is left of
  the left edge of the example rectangle (1.5) by more than one scale unit, and it is
  above the top edge too. Both axes flip, and the active corner is top-left (0), not
  bottom-left (2).
\<close>

theorem drag_corner3_left_and_up_picks_corner0:
  "resizer_picked example_widget = Some 3 \<and>
   xdata (mouse_at 0 0) < patch_left example_widget \<and>
   scale (fst (axes example_widget)) \<le> patch_left example_widget - xdata (mouse_at 0 0) \<and>
   resizer_picked (onmousemove example_widget (mouse_at 0 0)) = Some 0 \<and>
   resizer_picked (onmousemove example_widget (mouse_at 0 0)) \<noteq> Some 2"
  by (simp add: onmousemove_corner_picked [of example_widget "mouse_at 0 0" 3] example_patch)
    (simp add: mouse_at_def)

text \<open>
  C5, as amended: with corner 3 picked, a move whose handle-adjusted mouse x is left of
  the left edge of the patch takes 1 off the corner index, and 2 more if the adjusted
  mouse y is above the top edge: the active corner is bottom-left (2) when the mouse is
  not above the top edge and top-left (0) when it is. When \<^verbatim>\<open>_size\<close> is a float array, the
  old left edge minus the adjusted mouse x is at least one scale unit and at most the
  extent of the axis, and the size snap is off, that difference is the new width.
\<close>

theorem drag_corner3_past_left_edge:
  assumes "picked wd" and "inaxes ev" and "resizer_picked wd = Some 3"
    and "drag_x wd ev 3 < patch_left wd"
  shows "resizer_picked (onmousemove wd ev) =
           Some (if drag_y wd ev 3 < patch_top wd then 0 else 2) \<and>
         (is_float (w_size wd) \<and>
          scale (fst (axes wd)) \<le> patch_left wd - drag_x wd ev 3 \<and>
          patch_left wd - drag_x wd ev 3
            \<le> of_int (axsize (fst (axes wd))) * scale (fst (axes wd)) \<and>
          \<not> snap_size wd \<longrightarrow>
            aget (w_size (onmousemove wd ev)) Ax0 = patch_left wd - drag_x wd ev 3)"
proof -
  have a: "resizer_picked (onmousemove wd ev) =
           Some (if drag_y wd ev 3 < patch_top wd then 0 else 2)"
    using assms(4) by (simp add: onmousemove_corner_picked [OF assms(1-3)])
  have b: "aget (w_size (onmousemove wd ev)) Ax0 = patch_left wd - drag_x wd ev 3"
    if "is_float (w_size wd)"
      and "scale (fst (axes wd)) \<le> patch_left wd - drag_x wd ev 3"
      and "patch_left wd - drag_x wd ev 3
            \<le> of_int (axsize (fst (axes wd))) * scale (fst (axes wd))"
      and "\<not> snap_size wd"
    using that(2,3) assms(4)
    by (simp add: onmousemove_corner_width [OF assms(1-3) that(4) that(1)])
  from a b show ?thesis by blast
qed

theorem drag_corner3_past_left_edge_witness:
  "picked example_widget \<and> inaxes (mouse_at 0 3) \<and> resizer_picked example_widget = Some 3 \<and>
   drag_x example_widget (mouse_at 0 3) 3 < patch_left example_widget \<and>
   is_float (w_size example_widget) \<and>
   resizer_picked (onmousemove example_widget (mouse_at 0 3)) = Some 2 \<and>
   aget (w_size (onmousemove example_widget (mouse_at 0 3))) Ax0 = 3 / 2 \<and>
   resizer_picked (onmousemove example_widget (mouse_at 0 1)) = Some 0"
proof -
  have h: "picked example_widget" "inaxes (mouse_at 0 3)" "resizer_picked example_widget = Some 3"
    "drag_x example_widget (mouse_at 0 3) 3 < patch_left example_widget"
    by (simp_all add: example_patch)
  have h': "inaxes (mouse_at 0 1)"
    "drag_x example_widget (mouse_at 0 1) 3 < patch_left example_widget"
    by (simp_all add: example_patch)
  have a: "resizer_picked (onmousemove example_widget (mouse_at 0 3)) = Some 2"
    using drag_corner3_past_left_edge [OF h] by (simp add: example_patch)
  have b: "aget (w_size (onmousemove example_widget (mouse_at 0 3))) Ax0 = 3 / 2"
    using drag_corner3_past_left_edge [OF h] by (simp add: example_patch)
  have c: "resizer_picked (onmousemove example_widget (mouse_at 0 1)) = Some 0"
    using drag_corner3_past_left_edge [OF h(1) h'(1) h(3) h'(2)] by (simp add: example_patch)
  from h a b c example_patch(11) show ?thesis by blast
qed





subsection \<open>Key steps on float arrays\<close>

text \<open>
  The departures of \<^verbatim>\<open>_decrease_xsize\<close> and \<^verbatim>\<open>_set_a_size\<close> shown above need an integer
  array. On float arrays the width step keeps its floor of one scale unit, and the shift
  of the position in navigation mode is stored as computed.
\<close>

lemma validate_geometry_keeps_events:
  "events (validate_geometry wd a b) = events wd"
  by (simp add: validate_geometry_def validate_geometry_bounds_def Let_def
      do_snap_position_def do_snap_size_def)

lemma set_a_size_unfold:
  assumes "aget (w_size wd) idx \<noteq> v" and "0 < v"
  shows "set_a_size wd idx v =
     size_changed (validate_geometry
       ((if navigating wd \<and> axvalue (vget (axes wd) idx) > aget (w_pos wd) idx \<and>
            v < aget (w_size wd) idx
         then wd\<lparr>w_pos := setitem (w_pos wd) idx
                    (aget (w_pos wd) idx + (aget (w_size wd) idx - v))\<rparr>
         else wd)\<lparr>w_size := setitem (w_size wd) idx v\<rparr>) None None)"
  using assms by (simp add: set_a_size_def Let_def)

lemma set_a_size_float_stored:
  assumes "is_float (w_size wd)" and "aget (w_size wd) Ax0 \<noteq> v" and "0 < v"
    and "v \<le> of_int (axsize (fst (axes wd))) * scale (fst (axes wd))"
    and "\<not> snap_size wd"
  shows "aget (w_size (set_a_size wd Ax0 v)) Ax0 = v"
proof -
  let ?wd = "(if navigating wd \<and> axvalue (vget (axes wd) Ax0) > aget (w_pos wd) Ax0 \<and>
            v < aget (w_size wd) Ax0
         then wd\<lparr>w_pos := setitem (w_pos wd) Ax0
                    (aget (w_pos wd) Ax0 + (aget (w_size wd) Ax0 - v))\<rparr>
         else wd)\<lparr>w_size := setitem (w_size wd) Ax0 v\<rparr>"
  have a: "\<not> snap_size ?wd" using assms(5) by simp
  have b: "is_float (w_size ?wd)" using assms(1) by simp
  have c: "axes ?wd = axes wd" by simp
  have d: "aget (w_size ?wd) Ax0 = v"
    using assms(1) by (simp add: aget_setitem_float)
  have "aget (w_size (set_a_size wd Ax0 v)) Ax0 = aget (w_size (validate_geometry ?wd None None)) Ax0"
    unfolding set_a_size_unfold [OF assms(2,3)] by (simp add: size_changed_def)
  also have "\<dots> = min (aget (w_size ?wd) Ax0)
      (of_int (axsize (fst (axes ?wd))) * scale (fst (axes ?wd)))"
    by (rule validate_geometry_size_nosnap(1) [OF a b])
  also have "\<dots> = v"
    unfolding c d using assms(4) by simp
  finally show ?thesis .
qed

lemma decrease_xsize_float_floor:
  assumes "is_float (w_size wd)"
    and "0 < scale (fst (axes wd))" and "0 \<le> size_step wd"
    and "1 \<le> axsize (fst (axes wd))"
    and "aget (w_size wd) Ax0 \<le> of_int (axsize (fst (axes wd))) * scale (fst (axes wd))"
    and "\<not> snap_size wd"
  shows "aget (w_size (decrease_xsize wd)) Ax0 =
      max (aget (w_size wd) Ax0 - scale (fst (axes wd)) * size_step wd) (scale (fst (axes wd)))"
    and "scale (fst (axes wd)) \<le> aget (w_size (decrease_xsize wd)) Ax0"
    and "aget (w_size wd) Ax0 = scale (fst (axes wd)) \<Longrightarrow> decrease_xsize wd = wd"
proof -
  let ?sc = "scale (fst (axes wd))"
  let ?new = "max (aget (w_size wd) Ax0 - ?sc * size_step wd) ?sc"
  have dec: "decrease_xsize wd = set_a_size wd Ax0 ?new"
    by (simp add: decrease_xsize_def Let_def)
  have nn: "0 \<le> ?sc * size_step wd" using assms(2,3) by simp
  have pos: "0 < ?new" using assms(2) by simp
  have le: "?new \<le> max (aget (w_size wd) Ax0) ?sc" using nn by simp
  have scn: "?sc \<le> of_int (axsize (fst (axes wd))) * ?sc"
    using assms(2,4) by (intro scale_le_extent) simp_all
  with le assms(5) have newn: "?new \<le> of_int (axsize (fst (axes wd))) * ?sc" by simp
  show st: "aget (w_size (decrease_xsize wd)) Ax0 = ?new"
  proof (cases "aget (w_size wd) Ax0 = ?new")
    case True
    then have "set_a_size wd Ax0 ?new = wd"
      by (simp add: set_a_size_def)
    with True dec show ?thesis by simp
  next
    case False
    from set_a_size_float_stored [OF assms(1) False pos newn assms(6)] dec
    show ?thesis by simp
  qed
  show "?sc \<le> aget (w_size (decrease_xsize wd)) Ax0"
    unfolding st by simp
  show "decrease_xsize wd = wd" if "aget (w_size wd) Ax0 = ?sc"
    using that nn by (simp add: decrease_xsize_def set_a_size_def Let_def max_def)
qed

lemma set_a_size_float_navigating_shift:
  assumes "is_float (w_pos wd)" and "is_float (w_size wd)"
    and "navigating wd" and "aget (w_pos wd) Ax0 < axvalue (fst (axes wd))"
    and "0 < v" and "v < aget (w_size wd) Ax0"
  shows "events (set_a_size wd Ax0 v) = events wd @ [SizeChanged]"
    and "aget (w_pos wd) Ax0 + aget (w_size wd) Ax0
           \<le> high_value (fst (axes wd)) + scale (fst (axes wd)) \<Longrightarrow>
         \<not> snap_position wd \<Longrightarrow>
         aget (w_pos (set_a_size wd Ax0 v)) Ax0 =
           aget (w_pos wd) Ax0 + (aget (w_size wd) Ax0 - v)"
proof -
  from assms(1) obtain p where p: "w_pos wd = FloatArr p" by (rule is_floatE)
  from assms(2) obtain s where s: "w_size wd = FloatArr s" by (rule is_floatE)
  have ne: "aget (w_size wd) Ax0 \<noteq> v" using assms(6) by simp
  note u = set_a_size_unfold [OF ne assms(5)]
  show "events (set_a_size wd Ax0 v) = events wd @ [SizeChanged]"
    unfolding u by (simp add: size_changed_def validate_geometry_keeps_events)
  show "aget (w_pos (set_a_size wd Ax0 v)) Ax0 =
           aget (w_pos wd) Ax0 + (aget (w_size wd) Ax0 - v)"
    if "aget (w_pos wd) Ax0 + aget (w_size wd) Ax0
           \<le> high_value (fst (axes wd)) + scale (fst (axes wd))"
      and "\<not> snap_position wd"
    unfolding u using that assms(3-6)
    by (cases p; cases s)
      (simp add: p s size_changed_def validate_geometry_def validate_geometry_bounds_def
        Let_def do_snap_size_def min_def)
qed

end
